theory Spec2Isabelle
  imports Complex_Main "HOL-Library.Sublist"
begin

section \<open>Exceptions\<close>

text \<open>
  The exceptions the modelled functions can raise: \<open>ValueError\<close> from
  \<open>datetime.strptime\<close>, \<open>KeyError\<close> from a dictionary lookup, \<open>StopIteration\<close> from
  \<open>next(iter(d))\<close> on an empty dictionary.
\<close>

datatype error = ValueError | KeyError | StopIteration

section \<open>Time of day (time\_checker.py)\<close>

text \<open>
  A \<open>datetime.time\<close> without time zone: its four fields. Python compares two such values
  as the tuples \<open>(hour, minute, second, microsecond)\<close>.
\<close>

record time =
  hour :: nat
  minute :: nat
  second :: nat
  microsecond :: nat

definition time_le :: "time \<Rightarrow> time \<Rightarrow> bool" where
  "time_le a b \<longleftrightarrow>
     hour a < hour b \<or> (hour a = hour b \<and>
       (minute a < minute b \<or> (minute a = minute b \<and>
         (second a < second b \<or> (second a = second b \<and>
           microsecond a \<le> microsecond b)))))"

text \<open>
  The \<open>current_time\<close> argument is a \<open>datetime\<close> (a calendar date and a time of day) or
  a bare \<open>time\<close>; \<open>None\<close> is the \<open>option\<close> around it.
\<close>

record date =
  year :: nat
  month :: nat
  day :: nat

datatype current_time = Datetime date time | Time time

text \<open>\<open>datetime.time()\<close>, and the identity on a value that is a \<open>time\<close> already.\<close>

fun time_of :: "current_time \<Rightarrow> time" where
  "time_of (Datetime d t) = t"
| "time_of (Time t) = t"

subsection \<open>\<open>datetime.strptime(s, '%H:%M:%S').time()\<close>\<close>

text \<open>
  The standard library turns the format into the regular expression
  \<open>(2[0-3]|[0-1]\d|\d):([0-5]\d|\d):(6[0-1]|[0-5]\d|\d)\<close>, matches it at the start of the
  string and raises \<open>ValueError\<close> when it does not match or when text remains; seconds 60
  and 61 match but are refused by the \<open>datetime\<close> constructor, again with
  \<open>ValueError\<close>. So a string is accepted exactly when it is three fields of one or two
  decimal digits separated by colons, a two-digit hour being at most 23 and a two-digit
  minute or second at most 59. Strings are sequences of 8-bit characters here, where
  \<open>\d\<close> is \<open>[0-9]\<close>, the characters of codes 48 to 57.
\<close>

definition digit_val :: "char \<Rightarrow> nat option" where
  "digit_val c =
     (let code = (of_char c :: nat) in
      if 48 \<le> code \<and> code \<le> 57 then Some (code - 48) else None)"

text \<open>One field: one digit, or two digits whose value is below the bound.\<close>

fun field :: "nat \<Rightarrow> string \<Rightarrow> nat option" where
  "field bound [c] = digit_val c"
| "field bound [c, d] =
     (case (digit_val c, digit_val d) of
        (Some a, Some b) \<Rightarrow> if 10 * a + b < bound then Some (10 * a + b) else None
      | _ \<Rightarrow> None)"
| "field bound s = None"

text \<open>The text before the first colon, and the text after it (if there is a colon).\<close>

fun split_colon :: "string \<Rightarrow> string \<times> string option" where
  "split_colon [] = ([], None)"
| "split_colon (c # cs) =
     (if c = CHR '':'' then ([], Some cs)
      else (case split_colon cs of (a, r) \<Rightarrow> (c # a, r)))"

definition strptime_HMS :: "string \<Rightarrow> error + time" where
  "strptime_HMS s =
     (case split_colon s of
        (hs, Some r1) \<Rightarrow>
          (case split_colon r1 of
             (ms, Some ss) \<Rightarrow>
               (case (field 24 hs, field 60 ms, field 60 ss) of
                  (Some h, Some m, Some sec) \<Rightarrow>
                    Inr \<lparr>hour = h, minute = m, second = sec, microsecond = 0\<rparr>
                | _ \<Rightarrow> Inl ValueError)
           | _ \<Rightarrow> Inl ValueError)
      | _ \<Rightarrow> Inl ValueError)"

subsection \<open>\<open>TimeChecker.is_open\<close>\<close>

text \<open>
  \<open>now\<close> is what \<open>datetime.now().time()\<close> returns when the function reads the clock,
  which it does when no instant is passed. The instant is resolved first, then the two
  strings are parsed (opening hour first), then the window is compared.
\<close>

definition is_open :: "time \<Rightarrow> string \<Rightarrow> string \<Rightarrow> current_time option \<Rightarrow> error + bool" where
  "is_open now open_hour close_hour current_time =
     (let t = (case current_time of None \<Rightarrow> now | Some c \<Rightarrow> time_of c) in
      case strptime_HMS open_hour of
        Inl e \<Rightarrow> Inl e
      | Inr open_time \<Rightarrow>
          (case strptime_HMS close_hour of
             Inl e \<Rightarrow> Inl e
           | Inr close_time \<Rightarrow>
               Inr (if time_le open_time close_time
                    then time_le open_time t \<and> time_le t close_time
                    else time_le open_time t \<or> time_le t close_time)))"

section \<open>Providers and the spatial index (spatial\_index.py)\<close>

text \<open>
  One row of the restaurants table, which is also the attribute record that
  \<open>build_index\<close> stores under the provider's id. Coordinates, radii and distances are
  real numbers here; the source computes with floating-point numbers.
\<close>

record restaurant =
  restaurant_id :: int
  latitude :: real
  longitude :: real
  availability_radius :: real
  open_hour :: string
  close_hour :: string
  rating :: real

subsection \<open>The R-tree\<close>

text \<open>
  The R-tree is the \<open>rtree\<close> library's. It is modelled by what the source uses of it: the
  entries inserted so far, each an id with its bounding box
  \<open>(min_x, min_y, max_x, max_y)\<close>, and \<open>intersection\<close>, which reports the ids of the
  entries whose box meets the query box (bounds included). The order in which the library
  visits its entries is a parameter \<open>visit\<close>, a rearrangement of the inserted entries.
\<close>

type_synonym box = "real \<times> real \<times> real \<times> real"

type_synonym entry = "int \<times> box"

definition intersects :: "box \<Rightarrow> box \<Rightarrow> bool" where
  "intersects a b =
     (case a of (ax0, ay0, ax1, ay1) \<Rightarrow>
        (case b of (bx0, by0, bx1, by1) \<Rightarrow>
           ax0 \<le> bx1 \<and> bx0 \<le> ax1 \<and> ay0 \<le> by1 \<and> by0 \<le> ay1))"

definition intersection :: "(entry list \<Rightarrow> entry list) \<Rightarrow> entry list \<Rightarrow> box \<Rightarrow> int list" where
  "intersection visit es q = map fst (filter (\<lambda>e. intersects (snd e) q) (visit es))"

subsection \<open>\<open>SpatialIndex\<close>\<close>

record SpatialIndex =
  idx :: "entry list"
  restaurants :: "int \<rightharpoonup> restaurant"

text \<open>The constructor: an empty R-tree and an empty dictionary.\<close>

definition SpatialIndex_init :: SpatialIndex where
  "SpatialIndex_init = \<lparr>idx = [], restaurants = Map.empty\<rparr>"

text \<open>
  The R-tree library takes the id of an entry as a signed 64-bit integer: a Python
  \<open>int\<close> outside that range is reduced modulo \<open>2 ^ 64\<close> on the way in, and
  \<open>intersection\<close> reports the reduced id.
\<close>

definition int64 :: "int \<Rightarrow> int" where
  "int64 i = (i + 2 ^ 63) mod 2 ^ 64 - 2 ^ 63"

text \<open>
  \<open>build_index\<close>: one pass over the rows; each row is stored in the dictionary under
  its id, and its point is inserted into the R-tree as the box \<open>(lat, lon, lat, lon)\<close>
  under the id as the library takes it. Nothing is removed first.
\<close>

fun build_index :: "SpatialIndex \<Rightarrow> restaurant list \<Rightarrow> SpatialIndex" where
  "build_index s [] = s"
| "build_index s (row # rows) =
     build_index
       (s\<lparr>restaurants := (restaurants s)(restaurant_id row \<mapsto> row),
          idx := idx s @ [(int64 (restaurant_id row),
                           (latitude row, longitude row, latitude row, longitude row))]\<rparr>)
       rows"

definition MAX_RADIUS_KM :: real where
  "MAX_RADIUS_KM = 100"

definition get_candidate_restaurants ::
  "(entry list \<Rightarrow> entry list) \<Rightarrow> SpatialIndex \<Rightarrow> real \<Rightarrow> real \<Rightarrow> int list" where
  "get_candidate_restaurants visit s lat lon =
     (let radius_deg = MAX_RADIUS_KM / 111 in
      intersection visit (idx s)
        (lat - radius_deg, lon - radius_deg, lat + radius_deg, lon + radius_deg))"

text \<open>
  The loop of \<open>_filter_candidates\<close>. \<open>calculate_distance\<close> is the distance calculator
  (\<open>pyproj\<close>'s inverse geodesic solution, in kilometres), a parameter. \<open>clock k\<close> is the
  time of day on the wall clock at the \<open>k\<close>-th call of \<open>is_open\<close> made by this query;
  \<open>is_open\<close> is called only for a candidate within its radius (\<open>and\<close> is
  short-circuit). \<open>acc\<close> is \<open>available_restaurants\<close>.
\<close>

fun filter_candidates_loop ::
  "(real \<Rightarrow> real \<Rightarrow> real \<Rightarrow> real \<Rightarrow> real) \<Rightarrow> (nat \<Rightarrow> time) \<Rightarrow> SpatialIndex \<Rightarrow>
   real \<Rightarrow> real \<Rightarrow> current_time option \<Rightarrow> int list \<Rightarrow> nat \<Rightarrow> int list \<Rightarrow> error + int list" where
  "filter_candidates_loop calculate_distance clock s lat lon ct [] k acc = Inr acc"
| "filter_candidates_loop calculate_distance clock s lat lon ct (rid # candidates) k acc =
     (case restaurants s rid of
        None \<Rightarrow> Inl KeyError
      | Some r \<Rightarrow>
          if calculate_distance lat lon (latitude r) (longitude r) \<le> availability_radius r
          then (case is_open (clock k) (open_hour r) (close_hour r) ct of
                  Inl e \<Rightarrow> Inl e
                | Inr b \<Rightarrow>
                    filter_candidates_loop calculate_distance clock s lat lon ct candidates
                      (Suc k) (if b then acc @ [rid] else acc))
          else filter_candidates_loop calculate_distance clock s lat lon ct candidates k acc)"

definition filter_candidates ::
  "(real \<Rightarrow> real \<Rightarrow> real \<Rightarrow> real \<Rightarrow> real) \<Rightarrow> (nat \<Rightarrow> time) \<Rightarrow> SpatialIndex \<Rightarrow>
   int list \<Rightarrow> real \<Rightarrow> real \<Rightarrow> current_time option \<Rightarrow> error + int list" where
  "filter_candidates calculate_distance clock s candidates lat lon ct =
     filter_candidates_loop calculate_distance clock s lat lon ct candidates 0 []"

definition find_restaurants_in_radius ::
  "(real \<Rightarrow> real \<Rightarrow> real \<Rightarrow> real \<Rightarrow> real) \<Rightarrow> (entry list \<Rightarrow> entry list) \<Rightarrow> (nat \<Rightarrow> time) \<Rightarrow>
   SpatialIndex \<Rightarrow> real \<Rightarrow> real \<Rightarrow> current_time option \<Rightarrow> error + int list" where
  "find_restaurants_in_radius calculate_distance visit clock s lat lon ct =
     (let candidates = get_candidate_restaurants visit s lat lon in
      filter_candidates calculate_distance clock s candidates lat lon ct)"

section \<open>The caching decorator (decorator.py)\<close>

subsection \<open>The cache key\<close>

text \<open>
  \<open>round(x, 4)\<close>: to the nearest multiple of \<open>0.0001\<close>, a tie going to the even one.
\<close>

definition round_half_even :: "real \<Rightarrow> int" where
  "round_half_even y =
     (let f = \<lfloor>y\<rfloor>; d = y - of_int f in
      if d < 1 / 2 then f else if 1 / 2 < d then f + 1
      else if even f then f else f + 1)"

definition round4 :: "real \<Rightarrow> real" where
  "round4 x = of_int (round_half_even (x * 10000)) / 10000"

text \<open>
  The decimal digits of a number, as an f-string prints an \<open>int\<close>; the digit \<open>n\<close> is the
  character of code \<open>48 + n\<close>.
\<close>

definition digit_char :: "nat \<Rightarrow> char" where
  "digit_char n = char_of (48 + n)"

fun format_int :: "nat \<Rightarrow> string" where
  "format_int n =
     (if n < 10 then [digit_char n] else format_int (n div 10) @ [digit_char (n mod 10)])"

type_synonym cache_key = "real \<times> real \<times> string option"

definition time_key :: "current_time option \<Rightarrow> string option" where
  "time_key current_time =
     (case current_time of
        None \<Rightarrow> None
      | Some c \<Rightarrow>
          Some (format_int (hour (time_of c)) @ '':'' @ format_int (minute (time_of c))))"

definition cache_key_of :: "real \<Rightarrow> real \<Rightarrow> current_time option \<Rightarrow> cache_key" where
  "cache_key_of lat lon current_time = (round4 lat, round4 lon, time_key current_time)"

subsection \<open>The dictionary\<close>

text \<open>
  \<open>self.cache\<close> is a \<open>dict\<close>, which keeps its keys in insertion order:
  \<open>next(iter(self.cache))\<close> is the oldest key. It is an association list, oldest entry
  first. \<open>dict_set\<close> is \<open>d[k] = v\<close>: a key already there keeps its place.
\<close>

fun dict_set :: "('k \<times> 'v) list \<Rightarrow> 'k \<Rightarrow> 'v \<Rightarrow> ('k \<times> 'v) list" where
  "dict_set [] k v = [(k, v)]"
| "dict_set ((k', v') # kvs) k v =
     (if k' = k then (k', v) # kvs else (k', v') # dict_set kvs k v)"

subsection \<open>\<open>CachingSpatialIndex\<close>\<close>

text \<open>
  The decorated index is any object with the two methods; \<open>'w\<close> is its state.
  \<open>wrapped_find\<close> and \<open>wrapped_build\<close> are its methods: they return what the call returns
  or raises, and the object's state after the call.
\<close>

record 'w CachingSpatialIndex =
  spatial_index :: 'w
  cache :: "(cache_key \<times> int list) list"
  cache_size :: int
  cache_hits :: int
  cache_misses :: int

definition CachingSpatialIndex_init :: "'w \<Rightarrow> int \<Rightarrow> 'w CachingSpatialIndex" where
  "CachingSpatialIndex_init w n =
     \<lparr>spatial_index = w, cache = [], cache_size = n, cache_hits = 0, cache_misses = 0\<rparr>"

definition caching_build_index ::
  "('w \<Rightarrow> 'd \<Rightarrow> (error + unit) \<times> 'w) \<Rightarrow> 'w CachingSpatialIndex \<Rightarrow> 'd \<Rightarrow>
   (error + unit) \<times> 'w CachingSpatialIndex" where
  "caching_build_index wrapped_build c restaurants_data =
     (let c1 = c\<lparr>cache := [], cache_hits := 0, cache_misses := 0\<rparr> in
      case wrapped_build (spatial_index c1) restaurants_data of
        (res, w') \<Rightarrow> (res, c1\<lparr>spatial_index := w'\<rparr>))"

definition caching_find_restaurants_in_radius ::
  "('w \<Rightarrow> real \<Rightarrow> real \<Rightarrow> current_time option \<Rightarrow> (error + int list) \<times> 'w) \<Rightarrow>
   'w CachingSpatialIndex \<Rightarrow> real \<Rightarrow> real \<Rightarrow> current_time option \<Rightarrow>
   (error + int list) \<times> 'w CachingSpatialIndex" where
  "caching_find_restaurants_in_radius wrapped_find c lat lon current_time =
     (let cache_key = cache_key_of lat lon current_time in
      case map_of (cache c) cache_key of
        Some stored \<Rightarrow> (Inr stored, c\<lparr>cache_hits := cache_hits c + 1\<rparr>)
      | None \<Rightarrow>
          (let c1 = c\<lparr>cache_misses := cache_misses c + 1\<rparr> in
           case wrapped_find (spatial_index c1) lat lon current_time of
             (Inl e, w') \<Rightarrow> (Inl e, c1\<lparr>spatial_index := w'\<rparr>)
           | (Inr result, w') \<Rightarrow>
               (let c2 = c1\<lparr>spatial_index := w'\<rparr> in
                if cache_size c2 \<le> int (length (cache c2))
                then (case cache c2 of
                        [] \<Rightarrow> (Inl StopIteration, c2)
                      | oldest # kept \<Rightarrow>
                          (Inr result, c2\<lparr>cache := dict_set kept cache_key result\<rparr>))
                else (Inr result, c2\<lparr>cache := dict_set (cache c2) cache_key result\<rparr>))))"

text \<open>
  A plain \<open>SpatialIndex\<close> as the decorated index: its two methods in the shape the
  decorator calls them. Neither changes the index's state when it queries, and
  \<open>build_index\<close> raises nothing.
\<close>

definition SpatialIndex_find ::
  "(real \<Rightarrow> real \<Rightarrow> real \<Rightarrow> real \<Rightarrow> real) \<Rightarrow> (entry list \<Rightarrow> entry list) \<Rightarrow> (nat \<Rightarrow> time) \<Rightarrow>
   SpatialIndex \<Rightarrow> real \<Rightarrow> real \<Rightarrow> current_time option \<Rightarrow> (error + int list) \<times> SpatialIndex" where
  "SpatialIndex_find calculate_distance visit clock s lat lon ct =
     (find_restaurants_in_radius calculate_distance visit clock s lat lon ct, s)"

definition SpatialIndex_build ::
  "SpatialIndex \<Rightarrow> restaurant list \<Rightarrow> (error + unit) \<times> SpatialIndex" where
  "SpatialIndex_build s rows = (Inr (), build_index s rows)"

subsection \<open>Sequences of calls\<close>

text \<open>
  A caller's calls on one decorator, in order. A query carries \<open>'e\<close>, what the
  decorated index's answer depends on besides its state and the arguments (the clock).
  A call that raises leaves the object as the exception found it, and the next call
  goes on from there.
\<close>

datatype ('e, 'd) call = Find 'e real real "current_time option" | Build 'd

fun run_call ::
  "('e \<Rightarrow> 'w \<Rightarrow> real \<Rightarrow> real \<Rightarrow> current_time option \<Rightarrow> (error + int list) \<times> 'w) \<Rightarrow>
   ('w \<Rightarrow> 'd \<Rightarrow> (error + unit) \<times> 'w) \<Rightarrow> 'w CachingSpatialIndex \<Rightarrow> ('e, 'd) call \<Rightarrow>
   'w CachingSpatialIndex" where
  "run_call wrapped_find wrapped_build c (Find e lat lon ct) =
     snd (caching_find_restaurants_in_radius (wrapped_find e) c lat lon ct)"
| "run_call wrapped_find wrapped_build c (Build d) =
     snd (caching_build_index wrapped_build c d)"

fun run_calls ::
  "('e \<Rightarrow> 'w \<Rightarrow> real \<Rightarrow> real \<Rightarrow> current_time option \<Rightarrow> (error + int list) \<times> 'w) \<Rightarrow>
   ('w \<Rightarrow> 'd \<Rightarrow> (error + unit) \<times> 'w) \<Rightarrow> 'w CachingSpatialIndex \<Rightarrow> ('e, 'd) call list \<Rightarrow>
   'w CachingSpatialIndex" where
  "run_calls wrapped_find wrapped_build c [] = c"
| "run_calls wrapped_find wrapped_build c (x # xs) =
     run_calls wrapped_find wrapped_build (run_call wrapped_find wrapped_build c x) xs"

text \<open>The number of queries since the last \<open>Build\<close> (or since the start), from \<open>n\<close> so far.\<close>

fun queries_since_build :: "int \<Rightarrow> ('e, 'd) call list \<Rightarrow> int" where
  "queries_since_build n [] = n"
| "queries_since_build n (Find e lat lon ct # xs) = queries_since_build (n + 1) xs"
| "queries_since_build n (Build d # xs) = queries_since_build 0 xs"

section \<open>Vocabulary of the statements\<close>

definition at_time :: "nat \<Rightarrow> nat \<Rightarrow> nat \<Rightarrow> time" where
  "at_time h m s = \<lparr>hour = h, minute = m, second = s, microsecond = 0\<rparr>"

text \<open>
  The cache as a well-formed dictionary within its capacity: no more entries than
  \<open>cache_size\<close>, and no key twice (so that the length of the list is \<open>len(self.cache)\<close>).
\<close>

definition cache_ok :: "'w CachingSpatialIndex \<Rightarrow> bool" where
  "cache_ok c \<longleftrightarrow> int (length (cache c)) \<le> cache_size c \<and> distinct (map fst (cache c))"

subsection \<open>Example data\<close>

text \<open>
  A provider open from 09:00:00 to 17:00:00, as a row of the table. Where an example
  needs the distance calculator's value it uses the two points \<open>(0, 0)\<close> and \<open>(2, 0)\<close>
  (latitude, longitude, in degrees) only; the WGS84 geodesic between them is the meridian
  arc from the equator to 2 degrees north, 221.149 km, and a point is at distance 0 from
  itself, which is what \<open>example_distance\<close> returns for them.
\<close>

definition example_provider :: "int \<Rightarrow> real \<Rightarrow> real \<Rightarrow> real \<Rightarrow> restaurant" where
  "example_provider i lat lon radius =
     \<lparr>restaurant_id = i, latitude = lat, longitude = lon, availability_radius = radius,
      open_hour = ''09:00:00'', close_hour = ''17:00:00'', rating = 4\<rparr>"

definition example_distance :: "real \<Rightarrow> real \<Rightarrow> real \<Rightarrow> real \<Rightarrow> real" where
  "example_distance lat1 lon1 lat2 lon2 = (if lat1 = lat2 \<and> lon1 = lon2 then 0 else 221.149)"

section \<open>Properties of the time window\<close>

lemma strptime_22: "strptime_HMS ''22:00:00'' = Inr \<lparr>hour = 22, minute = 0, second = 0, microsecond = 0\<rparr>"
  by (simp add: strptime_HMS_def digit_val_def)

lemma strptime_06: "strptime_HMS ''06:00:00'' = Inr \<lparr>hour = 6, minute = 0, second = 0, microsecond = 0\<rparr>"
  by (simp add: strptime_HMS_def digit_val_def)

lemma strptime_09: "strptime_HMS ''09:00:00'' = Inr (at_time 9 0 0)"
  by (simp add: strptime_HMS_def digit_val_def at_time_def)

lemma strptime_17: "strptime_HMS ''17:00:00'' = Inr (at_time 17 0 0)"
  by (simp add: strptime_HMS_def digit_val_def at_time_def)

lemma strptime_error: "strptime_HMS s = Inl e \<Longrightarrow> e = ValueError"
  by (auto simp: strptime_HMS_def split: prod.splits option.splits)

lemma is_open_supplied: "is_open now oh ch (Some c) = is_open now' oh ch (Some c)"
  by (simp add: is_open_def)

lemma is_open_omitted: "is_open now oh ch None = is_open now' oh ch (Some (Time now))"
  by (simp add: is_open_def)

lemma is_open_parses:
  assumes "strptime_HMS oh = Inr ot" "strptime_HMS ch = Inr ct"
  shows "\<exists>b. is_open now oh ch t = Inr b"
  using assms by (simp add: is_open_def Let_def)

lemma example_open_noon:
  "is_open now ''09:00:00'' ''17:00:00'' (Some (Time (at_time 12 0 0))) = Inr True"
  by (simp add: is_open_def Let_def strptime_09 strptime_17) (simp add: at_time_def time_le_def)

text \<open>
  C5. Whenever both strings parse, \<open>is_open\<close> at a supplied instant returns a boolean:
  for a window that does not cross midnight it is true exactly when the instant lies
  between the opening and the closing time, both bounds included; for a window that
  crosses midnight exactly when the instant is at or after the opening time or at or
  before the closing time. The window 22:00:00 to 06:00:00 is open at 23:00:00 and at
  02:00:00 and closed at 21:59:59 and at 06:00:01.
\<close>

theorem is_open_window:
  assumes "strptime_HMS oh = Inr open_time"
    and "strptime_HMS ch = Inr close_time"
  shows "is_open now oh ch (Some c) =
           Inr (if time_le open_time close_time
                then time_le open_time (time_of c) \<and> time_le (time_of c) close_time
                else time_le open_time (time_of c) \<or> time_le (time_of c) close_time)
         \<and> is_open now oh ch (Some (Time open_time)) = Inr True
         \<and> is_open now oh ch (Some (Time close_time)) = Inr True
         \<and> is_open now ''22:00:00'' ''06:00:00''
             (Some (Time \<lparr>hour = 23, minute = 0, second = 0, microsecond = 0\<rparr>)) = Inr True
         \<and> is_open now ''22:00:00'' ''06:00:00''
             (Some (Time \<lparr>hour = 2, minute = 0, second = 0, microsecond = 0\<rparr>)) = Inr True
         \<and> is_open now ''22:00:00'' ''06:00:00''
             (Some (Time \<lparr>hour = 21, minute = 59, second = 59, microsecond = 0\<rparr>)) = Inr False
         \<and> is_open now ''22:00:00'' ''06:00:00''
             (Some (Time \<lparr>hour = 6, minute = 0, second = 1, microsecond = 0\<rparr>)) = Inr False"
proof -
  have general: "is_open now oh ch (Some c) =
           Inr (if time_le open_time close_time
                then time_le open_time (time_of c) \<and> time_le (time_of c) close_time
                else time_le open_time (time_of c) \<or> time_le (time_of c) close_time)" for c
    using assms by (simp add: is_open_def Let_def)
  have refl: "time_le t t" for t
    by (simp add: time_le_def)
  have at_open: "is_open now oh ch (Some (Time open_time)) = Inr True"
    by (simp add: general refl)
  have at_close: "is_open now oh ch (Some (Time close_time)) = Inr True"
    by (simp add: general refl)
  have examples: "is_open now ''22:00:00'' ''06:00:00''
             (Some (Time \<lparr>hour = 23, minute = 0, second = 0, microsecond = 0\<rparr>)) = Inr True"
    "is_open now ''22:00:00'' ''06:00:00''
             (Some (Time \<lparr>hour = 2, minute = 0, second = 0, microsecond = 0\<rparr>)) = Inr True"
    "is_open now ''22:00:00'' ''06:00:00''
             (Some (Time \<lparr>hour = 21, minute = 59, second = 59, microsecond = 0\<rparr>)) = Inr False"
    "is_open now ''22:00:00'' ''06:00:00''
             (Some (Time \<lparr>hour = 6, minute = 0, second = 1, microsecond = 0\<rparr>)) = Inr False"
    by (simp_all add: is_open_def Let_def strptime_22 strptime_06 time_le_def)
  show ?thesis
    using general [of c] at_open at_close examples by simp
qed

theorem is_open_window_witness:
  "is_open \<lparr>hour = 0, minute = 0, second = 0, microsecond = 0\<rparr> ''22:00:00'' ''06:00:00''
     (Some (Datetime \<lparr>year = 1900, month = 1, day = 1\<rparr>
        \<lparr>hour = 5, minute = 59, second = 59, microsecond = 999999\<rparr>)) = Inr True"
  using is_open_window [OF strptime_22 strptime_06,
      of "\<lparr>hour = 0, minute = 0, second = 0, microsecond = 0\<rparr>"
         "Datetime \<lparr>year = 1900, month = 1, day = 1\<rparr>
            \<lparr>hour = 5, minute = 59, second = 59, microsecond = 999999\<rparr>"]
  by (simp add: time_le_def)

text \<open>
  C8 (as amended). \<open>is_open\<close> takes the opening and the closing hour as strings and
  parses them itself. When both strings parse it returns a boolean, the window test at the
  supplied instant or, when none is supplied, at the time the function reads from the
  clock; when either string is malformed the call raises \<open>ValueError\<close>, with or without
  an instant.
\<close>

theorem is_open_parses_inside:
  "(case (strptime_HMS oh, strptime_HMS ch) of
      (Inr open_time, Inr close_time) \<Rightarrow>
         is_open now oh ch None =
           Inr (if time_le open_time close_time
                then time_le open_time now \<and> time_le now close_time
                else time_le open_time now \<or> time_le now close_time)
         \<and> is_open now oh ch (Some c) =
           Inr (if time_le open_time close_time
                then time_le open_time (time_of c) \<and> time_le (time_of c) close_time
                else time_le open_time (time_of c) \<or> time_le (time_of c) close_time)
    | _ \<Rightarrow> is_open now oh ch None = Inl ValueError \<and> is_open now oh ch (Some c) = Inl ValueError)"
  by (auto simp: is_open_def Let_def split: sum.splits dest: strptime_error)

text \<open>
  The claim as stated fails: given the string \<open>25:00:00\<close> as opening hour, \<open>is_open\<close>
  itself raises \<open>ValueError\<close>.
\<close>

theorem is_open_raises_on_malformed_hour:
  "is_open (at_time 12 0 0) ''25:00:00'' ''06:00:00'' (Some (Time (at_time 12 0 0)))
     = Inl ValueError"
  by (simp add: is_open_def Let_def strptime_HMS_def digit_val_def)

section \<open>Properties of the spatial index\<close>

lemma int64_examples: "int64 1 = 1" "int64 2 = 2"
  by (simp_all add: int64_def)

text \<open>
  An id beyond the 64-bit range comes back from the R-tree reduced, and the lookup of the
  reduced id in the dictionary raises \<open>KeyError\<close>.
\<close>

lemma example_id_beyond_int64:
  "find_restaurants_in_radius example_distance (\<lambda>es. es) clock
      (build_index SpatialIndex_init [example_provider (2 ^ 63) 0 0 5]) 0 0
      (Some (Time (at_time 12 0 0))) = Inl KeyError"
  by (simp add: find_restaurants_in_radius_def filter_candidates_def
      get_candidate_restaurants_def intersection_def intersects_def Let_def
      SpatialIndex_init_def example_provider_def MAX_RADIUS_KM_def int64_def)

subsection \<open>The loop of the fine filter\<close>

text \<open>Whatever the instant, a result is the accumulator followed by some of the
  candidates, in their order.\<close>

lemma loop_subseq:
  "filter_candidates_loop cd clock s lat lon ct cands k acc = Inr res \<Longrightarrow>
     \<exists>ys. res = acc @ ys \<and> subseq ys cands"
proof (induction cands arbitrary: k acc)
  case Nil
  then show ?case by simp
next
  case (Cons rid cands)
  from Cons.prems obtain r where r: "restaurants s rid = Some r"
    by (auto split: option.splits)
  show ?case
  proof (cases "cd lat lon (latitude r) (longitude r) \<le> availability_radius r")
    case False
    with Cons.prems r
    have "filter_candidates_loop cd clock s lat lon ct cands k acc = Inr res"
      by simp
    from Cons.IH [OF this] show ?thesis
      by (auto intro: list_emb_Cons)
  next
    case True
    with Cons.prems r obtain b where
      b: "is_open (clock k) (open_hour r) (close_hour r) ct = Inr b"
      and run: "filter_candidates_loop cd clock s lat lon ct cands (Suc k)
                  (if b then acc @ [rid] else acc) = Inr res"
      by (auto split: sum.splits)
    from Cons.IH [OF run] obtain ys where
      ys: "res = (if b then acc @ [rid] else acc) @ ys" "subseq ys cands"
      by blast
    show ?thesis
    proof (cases b)
      case True
      with ys have "res = acc @ (rid # ys)" "subseq (rid # ys) (rid # cands)"
        by simp_all
      then show ?thesis by blast
    next
      case False
      with ys have "res = acc @ ys" "subseq ys (rid # cands)"
        by (simp_all add: list_emb_Cons)
      then show ?thesis by blast
    qed
  qed
qed

lemma subseq_sorted:
  fixes xs :: "int list"
  shows "subseq xs ys \<Longrightarrow> sorted ys \<Longrightarrow> sorted xs"
proof (induction rule: list_emb.induct)
  case (list_emb_Nil ys)
  then show ?case by simp
next
  case (list_emb_Cons xs ys y)
  then show ?case by simp
next
  case (list_emb_Cons2 x y xs ys)
  then have "set xs \<subseteq> set ys"
    by (auto dest: list_emb_set)
  with list_emb_Cons2 show ?case
    by auto
qed

text \<open>With an instant supplied the clock is not consulted; with none, each call of
  \<open>is_open\<close> uses the clock's reading.\<close>

lemma loop_clock_free:
  "filter_candidates_loop cd clocka s lat lon (Some c) cands ka acc =
   filter_candidates_loop cd clockb s lat lon (Some c) cands kb acc"
proof (induction cands arbitrary: ka kb acc)
  case Nil
  show ?case by simp
next
  case (Cons rid cands)
  have IH: "filter_candidates_loop cd clocka s lat lon (Some c) cands i acc' =
   filter_candidates_loop cd clockb s lat lon (Some c) cands j acc'" for i j acc'
    by (rule Cons.IH)
  show ?case
  proof (cases "restaurants s rid")
    case None
    then show ?thesis by simp
  next
    case (Some r)
    have o: "is_open (clocka ka) (open_hour r) (close_hour r) (Some c) =
          is_open (clockb kb) (open_hour r) (close_hour r) (Some c)"
      by (rule is_open_supplied)
    show ?thesis
      using Some IH [of ka _ kb] IH [of "Suc ka" _ "Suc kb"]
      by (simp add: o split: sum.splits)
  qed
qed

lemma loop_omitted:
  "filter_candidates_loop cd (\<lambda>k. now) s lat lon None cands ka acc =
   filter_candidates_loop cd clockb s lat lon (Some (Time now)) cands kb acc"
proof (induction cands arbitrary: ka kb acc)
  case Nil
  show ?case by simp
next
  case (Cons rid cands)
  have IH: "filter_candidates_loop cd (\<lambda>k. now) s lat lon None cands i acc' =
   filter_candidates_loop cd clockb s lat lon (Some (Time now)) cands j acc'" for i j acc'
    by (rule Cons.IH)
  show ?case
  proof (cases "restaurants s rid")
    case None
    then show ?thesis by simp
  next
    case (Some r)
    have o: "is_open now (open_hour r) (close_hour r) None =
          is_open (clockb kb) (open_hour r) (close_hour r) (Some (Time now))"
      by (rule is_open_omitted)
    show ?thesis
      using Some IH [of ka _ kb] IH [of "Suc ka" _ "Suc kb"]
      by (simp add: o split: sum.splits)
  qed
qed

lemma example_find_noon:
  "find_restaurants_in_radius example_distance (\<lambda>es. es) clock
      (build_index SpatialIndex_init [example_provider 1 0 0 5]) 0 0
      (Some (Time (at_time 12 0 0))) = Inr [1]"
  by (simp add: find_restaurants_in_radius_def filter_candidates_def
      get_candidate_restaurants_def intersection_def intersects_def Let_def
      SpatialIndex_init_def example_provider_def MAX_RADIUS_KM_def example_distance_def
      example_open_noon int64_examples)

subsection \<open>The coarse prefilter\<close>

text \<open>
  C2. The prefilter excludes providers that are in range, also with radii within the
  100 km that the box is meant to cover. A provider at \<open>(60, 0)\<close> with a radius of 60 km
  is 53.0 km from the query point \<open>(60, 0.95)\<close> and is not among its candidates: the box
  reaches \<open>100 / 111\<close> of a degree of longitude, which is 50.3 km at that latitude. A
  provider at \<open>(0, 0)\<close> with a radius of 100 km is 99.85 km from the query point
  \<open>(0.903, 0)\<close> and is not among its candidates either: \<open>100 / 111\<close> of a degree of
  latitude is 99.6 km there.
\<close>

theorem prefilter_drops_provider_within_bound:
  "get_candidate_restaurants (\<lambda>es. es)
      (build_index SpatialIndex_init [example_provider 1 60 0 60]) 60 (95 / 100) = []
   \<and> availability_radius (example_provider 1 60 0 60) \<le> MAX_RADIUS_KM
   \<and> get_candidate_restaurants (\<lambda>es. es)
      (build_index SpatialIndex_init [example_provider 1 0 0 100]) (903 / 1000) 0 = []
   \<and> availability_radius (example_provider 1 0 0 100) \<le> MAX_RADIUS_KM"
  by (simp add: get_candidate_restaurants_def intersection_def intersects_def Let_def
      SpatialIndex_init_def example_provider_def MAX_RADIUS_KM_def)

subsection \<open>The query against a scan of all providers\<close>

text \<open>
  C1. The query misses a provider that a scan of all providers finds. The index holds one
  provider, at \<open>(60, 0)\<close> with a radius of 60 km, open from 09:00:00 to 17:00:00. At noon
  it is open, and it is 53.0 km from the query point \<open>(60, 0.95)\<close>, within its radius;
  the query returns the empty list, whatever the distance calculator \<open>cd\<close> returns,
  because the provider is no candidate of the prefilter.
\<close>

theorem query_drops_provider_within_bound:
  "find_restaurants_in_radius cd (\<lambda>es. es) clock
      (build_index SpatialIndex_init [example_provider 1 60 0 60]) 60 (95 / 100)
      (Some (Time (at_time 12 0 0))) = Inr []
   \<and> restaurants (build_index SpatialIndex_init [example_provider 1 60 0 60]) 1
        = Some (example_provider 1 60 0 60)
   \<and> is_open now (open_hour (example_provider 1 60 0 60))
        (close_hour (example_provider 1 60 0 60)) (Some (Time (at_time 12 0 0))) = Inr True"
  by (simp add: find_restaurants_in_radius_def filter_candidates_def
      get_candidate_restaurants_def intersection_def intersects_def Let_def
      SpatialIndex_init_def example_provider_def MAX_RADIUS_KM_def example_open_noon)

subsection \<open>The order of the result\<close>

lemma example_find_two:
  "find_restaurants_in_radius example_distance (\<lambda>es. es) clock
      (build_index SpatialIndex_init [example_provider 1 0 0 5, example_provider 2 0 0 5]) 0 0
      (Some (Time (at_time 12 0 0))) = Inr [1, 2]"
  by (simp add: find_restaurants_in_radius_def filter_candidates_def
      get_candidate_restaurants_def intersection_def intersects_def Let_def
      SpatialIndex_init_def example_provider_def MAX_RADIUS_KM_def example_distance_def
      example_open_noon int64_examples)

lemma example_candidates_two:
  "get_candidate_restaurants (\<lambda>es. es)
      (build_index SpatialIndex_init [example_provider 1 0 0 5, example_provider 2 0 0 5]) 0 0
     = [1, 2]"
  by (simp add: get_candidate_restaurants_def intersection_def intersects_def Let_def
      SpatialIndex_init_def example_provider_def MAX_RADIUS_KM_def int64_examples)

text \<open>
  C3 (as amended). The ids are returned in the order in which the R-tree's intersection
  query yields the candidates: the result is a subsequence of the candidate list, and
  nothing sorts it. So the result is ascending whenever the candidate list is ascending.
\<close>

theorem result_in_candidate_order:
  assumes "find_restaurants_in_radius cd visit clock s lat lon ct = Inr res"
  shows "subseq res (get_candidate_restaurants visit s lat lon)
       \<and> (sorted (get_candidate_restaurants visit s lat lon) \<longrightarrow> sorted res)"
proof -
  from assms have
    "filter_candidates_loop cd clock s lat lon ct (get_candidate_restaurants visit s lat lon) 0 []
       = Inr res"
    by (simp add: find_restaurants_in_radius_def filter_candidates_def Let_def)
  from loop_subseq [OF this] have sub: "subseq res (get_candidate_restaurants visit s lat lon)"
    by simp
  then show ?thesis
    by (auto dest: subseq_sorted)
qed

text \<open>
  Two providers at the query point, listed with id 1 before id 2: the candidates are
  \<open>[1, 2]\<close>, ascending, and so is the result \<open>[1, 2]\<close>.
\<close>

theorem result_in_candidate_order_witness:
  "find_restaurants_in_radius example_distance (\<lambda>es. es) (\<lambda>k. at_time 12 0 0)
      (build_index SpatialIndex_init [example_provider 1 0 0 5, example_provider 2 0 0 5]) 0 0
      (Some (Time (at_time 12 0 0))) = Inr [1, 2]
   \<and> subseq [1, 2] (get_candidate_restaurants (\<lambda>es. es)
      (build_index SpatialIndex_init [example_provider 1 0 0 5, example_provider 2 0 0 5]) 0 0)
   \<and> sorted (get_candidate_restaurants (\<lambda>es. es)
      (build_index SpatialIndex_init [example_provider 1 0 0 5, example_provider 2 0 0 5]) 0 0)
   \<and> sorted [1, 2 :: int]"
proof -
  let ?s = "build_index SpatialIndex_init [example_provider 1 0 0 5, example_provider 2 0 0 5]"
  have run: "find_restaurants_in_radius example_distance (\<lambda>es. es) (\<lambda>k. at_time 12 0 0)
      ?s 0 0 (Some (Time (at_time 12 0 0))) = Inr [1, 2]"
    by (rule example_find_two)
  have asc: "sorted (get_candidate_restaurants (\<lambda>es. es) ?s 0 0)"
    by (simp only: example_candidates_two) simp
  from result_in_candidate_order [OF run] asc
  have "subseq [1, 2] (get_candidate_restaurants (\<lambda>es. es) ?s 0 0)" "sorted [1, 2 :: int]"
    by blast+
  with run asc show ?thesis
    by blast
qed

text \<open>
  The claim as stated fails: two providers at the query point, the table listing id 2
  before id 1 and the R-tree visiting its entries in the order of insertion, are
  returned as \<open>[2, 1]\<close>.
\<close>

theorem result_not_ascending:
  "find_restaurants_in_radius example_distance (\<lambda>es. es) (\<lambda>k. at_time 12 0 0)
      (build_index SpatialIndex_init [example_provider 2 0 0 5, example_provider 1 0 0 5]) 0 0
      (Some (Time (at_time 12 0 0))) = Inr [2, 1]
   \<and> \<not> sorted [2, 1 :: int]"
  by (simp add: find_restaurants_in_radius_def filter_candidates_def
      get_candidate_restaurants_def intersection_def intersects_def Let_def
      SpatialIndex_init_def example_provider_def MAX_RADIUS_KM_def example_distance_def
      example_open_noon int64_examples)

subsection \<open>Building twice\<close>

text \<open>
  C4. \<open>build_index\<close> does not replace the prior content. After a first build with
  provider 1 at \<open>(0, 0)\<close> and a second build with provider 2 at \<open>(2, 0)\<close> only, a query at
  \<open>(0, 0)\<close> returns provider 1, which is still in the attribute mapping and in the
  R-tree. After a second build from the same table as the first, the R-tree holds the
  provider twice and the query returns its id twice.
\<close>

theorem earlier_dataset_survives_rebuild:
  "find_restaurants_in_radius example_distance (\<lambda>es. es) (\<lambda>k. at_time 12 0 0)
      (build_index (build_index SpatialIndex_init [example_provider 1 0 0 5])
         [example_provider 2 2 0 5]) 0 0
      (Some (Time (at_time 12 0 0))) = Inr [1]
   \<and> restaurants (build_index (build_index SpatialIndex_init [example_provider 1 0 0 5])
         [example_provider 2 2 0 5]) 1 = Some (example_provider 1 0 0 5)
   \<and> map fst (idx (build_index (build_index SpatialIndex_init [example_provider 1 0 0 5])
         [example_provider 2 2 0 5])) = [1, 2]
   \<and> find_restaurants_in_radius example_distance (\<lambda>es. es) (\<lambda>k. at_time 12 0 0)
      (build_index (build_index SpatialIndex_init [example_provider 1 0 0 5])
         [example_provider 1 0 0 5]) 0 0
      (Some (Time (at_time 12 0 0))) = Inr [1, 1]
   \<and> map fst (idx (build_index (build_index SpatialIndex_init [example_provider 1 0 0 5])
         [example_provider 1 0 0 5])) = [1, 1]"
  by (simp add: find_restaurants_in_radius_def filter_candidates_def
      get_candidate_restaurants_def intersection_def intersects_def Let_def
      SpatialIndex_init_def example_provider_def MAX_RADIUS_KM_def example_distance_def
      example_open_noon int64_examples)

subsection \<open>The clock\<close>

text \<open>
  C9 (as amended). With an instant supplied, the result of a query is the same whatever
  the clock shows: two runs on the same index with the same arguments return the same
  result. With the instant omitted, the core reads the clock itself, once at each test of
  a candidate's hours, so the result depends on the clock; when the clock shows one and
  the same time \<open>now\<close> at every reading during the query, the result is the one of the
  query with \<open>now\<close> supplied as the instant.
\<close>

theorem deterministic_with_supplied_instant:
  "find_restaurants_in_radius cd visit clock1 s lat lon (Some c) =
     find_restaurants_in_radius cd visit clock2 s lat lon (Some c)
   \<and> find_restaurants_in_radius cd visit (\<lambda>k. now) s lat lon None =
     find_restaurants_in_radius cd visit clock2 s lat lon (Some (Time now))"
  using loop_clock_free [where clocka = clock1 and clockb = clock2 and ka = 0 and kb = 0]
    loop_omitted [where clockb = clock2 and ka = 0 and kb = 0]
  by (simp add: find_restaurants_in_radius_def filter_candidates_def Let_def)

text \<open>
  The claim as stated fails: the same query with the instant omitted returns provider 1
  when the clock shows 10:00:00 and nothing when it shows 20:00:00. And of two providers
  at the query point, both open from 09:00:00 to 17:00:00, it returns the first only
  when the clock moves from 10:00:00 to 20:00:00 between the two tests.
\<close>

theorem omitted_instant_reads_clock:
  "find_restaurants_in_radius example_distance (\<lambda>es. es) (\<lambda>k. at_time 10 0 0)
      (build_index SpatialIndex_init [example_provider 1 0 0 5]) 0 0 None = Inr [1]
   \<and> find_restaurants_in_radius example_distance (\<lambda>es. es) (\<lambda>k. at_time 20 0 0)
      (build_index SpatialIndex_init [example_provider 1 0 0 5]) 0 0 None = Inr []
   \<and> find_restaurants_in_radius example_distance (\<lambda>es. es)
      (\<lambda>k. if k = 0 then at_time 10 0 0 else at_time 20 0 0)
      (build_index SpatialIndex_init [example_provider 1 0 0 5, example_provider 2 0 0 5])
      0 0 None = Inr [1]"
  by (simp add: find_restaurants_in_radius_def filter_candidates_def
      get_candidate_restaurants_def intersection_def intersects_def Let_def
      SpatialIndex_init_def example_provider_def MAX_RADIUS_KM_def example_distance_def
      is_open_def strptime_09 strptime_17 int64_examples) (simp add: at_time_def time_le_def)

section \<open>Properties of the caching decorator\<close>

subsection \<open>The dictionary\<close>

lemma map_of_dict_set_same: "map_of (dict_set xs k v) k = Some v"
  by (induction xs) auto

lemma length_dict_set:
  "length (dict_set xs k v) = (if map_of xs k = None then Suc (length xs) else length xs)"
  by (induction xs) auto

lemma keys_dict_set:
  "map fst (dict_set xs k v) = (if k \<in> set (map fst xs) then map fst xs else map fst xs @ [k])"
proof (induction xs)
  case Nil
  show ?case by simp
next
  case (Cons x xs)
  obtain k' v' where x: "x = (k', v')" by (cases x)
  show ?case
    using Cons x by (cases "k' = k") simp_all
qed

lemma distinct_dict_set:
  "distinct (map fst xs) \<Longrightarrow> distinct (map fst (dict_set xs k v))"
  by (simp add: keys_dict_set)

subsection \<open>One call\<close>

lemma find_cache_size:
  "cache_size (snd (caching_find_restaurants_in_radius f c lat lon ct)) = cache_size c"
  by (simp add: caching_find_restaurants_in_radius_def Let_def
      split: option.splits prod.splits sum.splits list.splits)

lemma find_counts:
  "cache_hits (snd (caching_find_restaurants_in_radius f c lat lon ct))
     + cache_misses (snd (caching_find_restaurants_in_radius f c lat lon ct))
   = cache_hits c + cache_misses c + 1"
  by (simp add: caching_find_restaurants_in_radius_def Let_def
      split: option.splits prod.splits sum.splits list.splits)

lemma find_cache_ok:
  assumes "1 \<le> cache_size c" "cache_ok c"
  shows "cache_ok (snd (caching_find_restaurants_in_radius f c lat lon ct))"
proof (cases "map_of (cache c) (cache_key_of lat lon ct)")
  case (Some stored)
  with assms(2) show ?thesis
    by (simp add: caching_find_restaurants_in_radius_def Let_def cache_ok_def)
next
  case None
  obtain res w' where f: "f (spatial_index c) lat lon ct = (res, w')"
    by (cases "f (spatial_index c) lat lon ct")
  show ?thesis
  proof (cases res)
    case (Inl e)
    with None f assms(2) show ?thesis
      by (simp add: caching_find_restaurants_in_radius_def Let_def cache_ok_def)
  next
    case (Inr result)
    show ?thesis
    proof (cases "cache c")
      case Nil
      with None f Inr assms(1) show ?thesis
        by (simp add: caching_find_restaurants_in_radius_def Let_def cache_ok_def)
    next
      case (Cons oldest kept)
      have absent: "map_of kept (cache_key_of lat lon ct) = None"
        using None Cons by (cases oldest) (simp split: if_splits)
      have d: "distinct (map fst kept)" "distinct (map fst (cache c))"
        using assms(2) Cons by (simp_all add: cache_ok_def)
      show ?thesis
        using None f Inr Cons assms absent d
        by (simp add: caching_find_restaurants_in_radius_def Let_def cache_ok_def
            length_dict_set distinct_dict_set del: distinct.simps)
    qed
  qed
qed

lemma build_resets:
  "cache (snd (caching_build_index b c d)) = []
   \<and> cache_hits (snd (caching_build_index b c d)) = 0
   \<and> cache_misses (snd (caching_build_index b c d)) = 0
   \<and> cache_size (snd (caching_build_index b c d)) = cache_size c"
  by (simp add: caching_build_index_def Let_def split: prod.splits)

lemma run_call_cache_size: "cache_size (run_call f b c x) = cache_size c"
  by (cases x) (simp_all add: find_cache_size build_resets)

lemma run_call_cache_ok:
  assumes "1 \<le> cache_size c" "cache_ok c"
  shows "cache_ok (run_call f b c x)"
proof (cases x)
  case (Find e lat lon ct)
  then show ?thesis using find_cache_ok [OF assms] by simp
next
  case (Build d)
  then show ?thesis using assms(1) by (simp add: cache_ok_def build_resets)
qed

lemma run_calls_invariant:
  assumes "1 \<le> cache_size c" "cache_ok c"
  shows "cache_size (run_calls f b c xs) = cache_size c
       \<and> cache_ok (run_calls f b c xs)
       \<and> cache_hits (run_calls f b c xs) + cache_misses (run_calls f b c xs)
           = queries_since_build (cache_hits c + cache_misses c) xs"
  using assms
proof (induction xs arbitrary: c)
  case Nil
  then show ?case by simp
next
  case (Cons x xs)
  let ?c = "run_call f b c x"
  have size: "cache_size ?c = cache_size c"
    by (rule run_call_cache_size)
  have ok: "cache_ok ?c"
    using Cons.prems by (rule run_call_cache_ok)
  have count: "queries_since_build (cache_hits ?c + cache_misses ?c) xs
       = queries_since_build (cache_hits c + cache_misses c) (x # xs)"
    by (cases x) (simp_all add: find_counts build_resets)
  from Cons.IH [of ?c] size ok Cons.prems(1) count show ?case
    by simp
qed

lemma same_time_key:
  assumes "map_option (\<lambda>t. (hour (time_of t), minute (time_of t))) t1 =
           map_option (\<lambda>t. (hour (time_of t), minute (time_of t))) t2"
  shows "time_key t1 = time_key t2"
  using assms by (cases t1; cases t2) (simp_all add: time_key_def)

lemma find_miss:
  assumes size: "1 \<le> cache_size c"
    and absent: "map_of (cache c) (cache_key_of lat lon ct) = None"
    and wrapped: "f (spatial_index c) lat lon ct = (Inr result, w')"
  shows "caching_find_restaurants_in_radius f c lat lon ct =
           (Inr result, c\<lparr>cache_misses := cache_misses c + 1, spatial_index := w',
              cache := dict_set (if cache_size c \<le> int (length (cache c))
                                 then tl (cache c) else cache c)
                         (cache_key_of lat lon ct) result\<rparr>)"
proof (cases "cache c")
  case Nil
  with assms show ?thesis
    by (simp add: caching_find_restaurants_in_radius_def Let_def)
next
  case (Cons oldest kept)
  with assms show ?thesis
    by (simp add: caching_find_restaurants_in_radius_def Let_def)
qed

lemma find_hit:
  assumes "map_of (cache c) key = Some stored" "cache_key_of lat lon ct = key"
  shows "caching_find_restaurants_in_radius f c lat lon ct =
           (Inr stored, c\<lparr>cache_hits := cache_hits c + 1\<rparr>)"
  using assms by (simp add: caching_find_restaurants_in_radius_def Let_def)

lemma find_zero_capacity:
  assumes "f s lat lon ct = (Inr result, w')"
  shows "caching_find_restaurants_in_radius f
          \<lparr>spatial_index = s, cache = [], cache_size = 0, cache_hits = h, cache_misses = m\<rparr>
          lat lon ct
      = (Inl StopIteration,
          \<lparr>spatial_index = w', cache = [], cache_size = 0, cache_hits = h, cache_misses = m + 1\<rparr>)"
  using assms by (simp add: caching_find_restaurants_in_radius_def Let_def)

lemma round4_example: "round4 0 = 0" "round4 (1 / 100000) = 0"
  by (simp_all add: round4_def round_half_even_def Let_def)

subsection \<open>Rebuilding\<close>

text \<open>
  C7. From any state of the decorator, whatever the decorated index's \<open>build_index\<close>
  does (also when it raises), after \<open>build_index\<close> the cache has no entry and the hit
  counter and the miss counter are zero.
\<close>

theorem build_index_clears_cache:
  "cache (snd (caching_build_index wrapped_build c d)) = []
   \<and> cache_hits (snd (caching_build_index wrapped_build c d)) = 0
   \<and> cache_misses (snd (caching_build_index wrapped_build c d)) = 0"
  by (simp add: caching_build_index_def Let_def split: prod.splits)


subsection \<open>Capacity and counters\<close>

text \<open>
  C10. For a decorator constructed with \<open>cache_size\<close> at least 1 and any sequence of
  queries and rebuilds (those that raise included), the cache then holds at most
  \<open>cache_size\<close> entries, under distinct keys, and the hit counter and the miss counter
  add up to the number of queries made since the construction or since the last rebuild.
  The sequence being arbitrary, this holds after each call.
\<close>

theorem cache_bounded_and_counted:
  assumes "1 \<le> n"
  shows "int (length (cache (run_calls f b (CachingSpatialIndex_init w n) xs))) \<le> n
       \<and> cache_size (run_calls f b (CachingSpatialIndex_init w n) xs) = n
       \<and> distinct (map fst (cache (run_calls f b (CachingSpatialIndex_init w n) xs)))
       \<and> cache_hits (run_calls f b (CachingSpatialIndex_init w n) xs)
           + cache_misses (run_calls f b (CachingSpatialIndex_init w n) xs)
           = queries_since_build 0 xs"
proof -
  have "1 \<le> cache_size (CachingSpatialIndex_init w n)"
    "cache_ok (CachingSpatialIndex_init w n)"
    using assms by (simp_all add: CachingSpatialIndex_init_def cache_ok_def)
  from run_calls_invariant [OF this, of f b xs] show ?thesis
    by (simp add: cache_ok_def CachingSpatialIndex_init_def)
qed

theorem cache_bounded_and_counted_witness:
  "int (length (cache (run_calls (\<lambda>clock. SpatialIndex_find example_distance (\<lambda>es. es) clock)
      SpatialIndex_build (CachingSpatialIndex_init SpatialIndex_init 1)
      [Build [example_provider 1 0 0 5],
       Find (\<lambda>k. at_time 10 0 0) 0 0 None,
       Find (\<lambda>k. at_time 20 0 0) 2 0 None]))) \<le> 1
   \<and> cache_hits (run_calls (\<lambda>clock. SpatialIndex_find example_distance (\<lambda>es. es) clock)
      SpatialIndex_build (CachingSpatialIndex_init SpatialIndex_init 1)
      [Build [example_provider 1 0 0 5],
       Find (\<lambda>k. at_time 10 0 0) 0 0 None,
       Find (\<lambda>k. at_time 20 0 0) 2 0 None])
     + cache_misses (run_calls (\<lambda>clock. SpatialIndex_find example_distance (\<lambda>es. es) clock)
      SpatialIndex_build (CachingSpatialIndex_init SpatialIndex_init 1)
      [Build [example_provider 1 0 0 5],
       Find (\<lambda>k. at_time 10 0 0) 0 0 None,
       Find (\<lambda>k. at_time 20 0 0) 2 0 None]) = 2"
  using cache_bounded_and_counted [of 1
      "\<lambda>clock. SpatialIndex_find example_distance (\<lambda>es. es) clock" SpatialIndex_build
      SpatialIndex_init
      "[Build [example_provider 1 0 0 5],
        Find (\<lambda>k. at_time 10 0 0) 0 0 None,
        Find (\<lambda>k. at_time 20 0 0) 2 0 None]"]
  by simp


subsection \<open>The same query twice\<close>

text \<open>
  What the decorator does when it can store a result: the key of the first query is not
  in the cache, the decorated index returns a list for it, and \<open>cache_size\<close> is at
  least 1. Then the first call returns that list and counts a miss, and a second query
  under the same key returns the same list and counts a hit, without calling the
  decorated index (whose method \<open>g\<close> is arbitrary and whose state is unchanged).
\<close>

lemma repeated_query_hits:
  assumes size: "1 \<le> cache_size c"
    and absent: "map_of (cache c) (cache_key_of lat lon ct) = None"
    and wrapped: "f (spatial_index c) lat lon ct = (Inr result, w')"
    and lat: "round4 lat = round4 lat'"
    and lon: "round4 lon = round4 lon'"
    and minute: "map_option (\<lambda>t. (hour (time_of t), minute (time_of t))) ct =
                 map_option (\<lambda>t. (hour (time_of t), minute (time_of t))) ct'"
  shows "\<exists>c1 c2.
           caching_find_restaurants_in_radius f c lat lon ct = (Inr result, c1)
         \<and> cache_misses c1 = cache_misses c + 1 \<and> cache_hits c1 = cache_hits c
         \<and> spatial_index c1 = w'
         \<and> caching_find_restaurants_in_radius g c1 lat' lon' ct' = (Inr result, c2)
         \<and> cache_hits c2 = cache_hits c1 + 1 \<and> cache_misses c2 = cache_misses c1
         \<and> spatial_index c2 = spatial_index c1 \<and> cache c2 = cache c1"
proof -
  let ?key = "cache_key_of lat lon ct"
  have key2: "cache_key_of lat' lon' ct' = ?key"
    using lat lon same_time_key [OF minute] by (simp add: cache_key_of_def)
  let ?kept = "if cache_size c \<le> int (length (cache c)) then tl (cache c) else cache c"
  let ?c1 = "c\<lparr>cache_misses := cache_misses c + 1, spatial_index := w',
                cache := dict_set ?kept ?key result\<rparr>"
  have first: "caching_find_restaurants_in_radius f c lat lon ct = (Inr result, ?c1)"
    using size absent wrapped by (rule find_miss)
  have stored: "map_of (cache ?c1) ?key = Some result"
    by (simp add: map_of_dict_set_same)
  have second: "caching_find_restaurants_in_radius g ?c1 lat' lon' ct' =
           (Inr result, ?c1\<lparr>cache_hits := cache_hits ?c1 + 1\<rparr>)"
    using stored key2 by (rule find_hit)
  show ?thesis
    using first second by simp
qed

lemma repeated_query_hits_example:
  "\<exists>c1 c2.
     caching_find_restaurants_in_radius
       (SpatialIndex_find example_distance (\<lambda>es. es) (\<lambda>k. at_time 12 0 0))
       (CachingSpatialIndex_init (build_index SpatialIndex_init [example_provider 1 0 0 5]) 1)
       0 0 (Some (Time (at_time 12 0 0))) = (Inr [1], c1)
   \<and> cache_misses c1 = 1 \<and> cache_hits c1 = 0
   \<and> caching_find_restaurants_in_radius
       (SpatialIndex_find example_distance (\<lambda>es. es) (\<lambda>k. at_time 20 0 0)) c1
       (1 / 100000) 0 (Some (Time (at_time 12 0 30))) = (Inr [1], c2)
   \<and> cache_misses c2 = 1 \<and> cache_hits c2 = 1"
proof -
  let ?f = "SpatialIndex_find example_distance (\<lambda>es. es) (\<lambda>k. at_time 12 0 0)"
  let ?s = "build_index SpatialIndex_init [example_provider 1 0 0 5]"
  let ?c = "CachingSpatialIndex_init ?s 1"
  let ?t = "Some (Time (at_time 12 0 0))"
  have w: "?f (spatial_index ?c) 0 0 ?t = (Inr [1], ?s)"
    by (simp only: SpatialIndex_find_def example_find_noon CachingSpatialIndex_init_def
        CachingSpatialIndex.simps)
  have size: "1 \<le> cache_size ?c" and absent: "map_of (cache ?c) (cache_key_of 0 0 ?t) = None"
    by (simp_all add: CachingSpatialIndex_init_def)
  have lat: "round4 0 = round4 (1 / 100000)" and lon: "round4 0 = round4 0"
    by (simp_all add: round4_example)
  have minute: "map_option (\<lambda>t. (hour (time_of t), minute (time_of t))) ?t =
      map_option (\<lambda>t. (hour (time_of t), minute (time_of t))) (Some (Time (at_time 12 0 30)))"
    by (simp add: at_time_def)
  have "\<exists>c1 c2.
           caching_find_restaurants_in_radius ?f ?c 0 0 ?t = (Inr [1], c1)
         \<and> cache_misses c1 = cache_misses ?c + 1 \<and> cache_hits c1 = cache_hits ?c
         \<and> spatial_index c1 = ?s
         \<and> caching_find_restaurants_in_radius
              (SpatialIndex_find example_distance (\<lambda>es. es) (\<lambda>k. at_time 20 0 0)) c1
              (1 / 100000) 0 (Some (Time (at_time 12 0 30))) = (Inr [1], c2)
         \<and> cache_hits c2 = cache_hits c1 + 1 \<and> cache_misses c2 = cache_misses c1
         \<and> spatial_index c2 = spatial_index c1 \<and> cache c2 = cache c1"
    using size absent w lat lon minute by (rule repeated_query_hits)
  then obtain c1 c2 where
    "caching_find_restaurants_in_radius ?f ?c 0 0 ?t = (Inr [1], c1)"
    "cache_misses c1 = cache_misses ?c + 1" "cache_hits c1 = cache_hits ?c"
    "caching_find_restaurants_in_radius
              (SpatialIndex_find example_distance (\<lambda>es. es) (\<lambda>k. at_time 20 0 0)) c1
              (1 / 100000) 0 (Some (Time (at_time 12 0 30))) = (Inr [1], c2)"
    "cache_hits c2 = cache_hits c1 + 1" "cache_misses c2 = cache_misses c1"
    by blast
  moreover have "cache_misses ?c = 0" "cache_hits ?c = 0"
    by (simp_all add: CachingSpatialIndex_init_def)
  ultimately show ?thesis
    by (intro exI [of _ c1] exI [of _ c2]) simp
qed

text \<open>
  C6. On a decorator constructed with \<open>cache_size = 0\<close> the two calls do not behave as
  claimed. The decorated index answers the first query with \<open>[1]\<close>; the decorator then
  finds its empty cache full and takes \<open>next(iter(self.cache))\<close> of the empty dictionary,
  which raises \<open>StopIteration\<close>. Nothing is returned and nothing is stored, so the
  second, identical query is a miss again and raises again: two misses, no hit, no
  result list.
\<close>

theorem zero_capacity_query_raises:
  "SpatialIndex_find example_distance (\<lambda>es. es) (\<lambda>k. at_time 12 0 0)
      (build_index SpatialIndex_init [example_provider 1 0 0 5]) 0 0
      (Some (Time (at_time 12 0 0)))
    = (Inr [1], build_index SpatialIndex_init [example_provider 1 0 0 5])
   \<and> caching_find_restaurants_in_radius
      (SpatialIndex_find example_distance (\<lambda>es. es) (\<lambda>k. at_time 12 0 0))
      (CachingSpatialIndex_init (build_index SpatialIndex_init [example_provider 1 0 0 5]) 0)
      0 0 (Some (Time (at_time 12 0 0)))
    = (Inl StopIteration,
       \<lparr>spatial_index = build_index SpatialIndex_init [example_provider 1 0 0 5],
        cache = [], cache_size = 0, cache_hits = 0, cache_misses = 1\<rparr>)
   \<and> caching_find_restaurants_in_radius
      (SpatialIndex_find example_distance (\<lambda>es. es) (\<lambda>k. at_time 12 0 0))
      \<lparr>spatial_index = build_index SpatialIndex_init [example_provider 1 0 0 5],
       cache = [], cache_size = 0, cache_hits = 0, cache_misses = 1\<rparr>
      0 0 (Some (Time (at_time 12 0 0)))
    = (Inl StopIteration,
       \<lparr>spatial_index = build_index SpatialIndex_init [example_provider 1 0 0 5],
        cache = [], cache_size = 0, cache_hits = 0, cache_misses = 2\<rparr>)"
proof -
  let ?f = "SpatialIndex_find example_distance (\<lambda>es. es) (\<lambda>k. at_time 12 0 0)"
  let ?s = "build_index SpatialIndex_init [example_provider 1 0 0 5]"
  let ?t = "Some (Time (at_time 12 0 0))"
  have w: "?f ?s 0 0 ?t = (Inr [1], ?s)"
    by (simp only: SpatialIndex_find_def example_find_noon)
  have first: "caching_find_restaurants_in_radius ?f
          \<lparr>spatial_index = ?s, cache = [], cache_size = 0, cache_hits = 0, cache_misses = 0\<rparr>
          0 0 ?t
      = (Inl StopIteration,
          \<lparr>spatial_index = ?s, cache = [], cache_size = 0, cache_hits = 0, cache_misses = 0 + 1\<rparr>)"
    using w by (rule find_zero_capacity)
  have second: "caching_find_restaurants_in_radius ?f
          \<lparr>spatial_index = ?s, cache = [], cache_size = 0, cache_hits = 0, cache_misses = 1\<rparr>
          0 0 ?t
      = (Inl StopIteration,
          \<lparr>spatial_index = ?s, cache = [], cache_size = 0, cache_hits = 0, cache_misses = 1 + 1\<rparr>)"
    using w by (rule find_zero_capacity)
  from first have first': "caching_find_restaurants_in_radius ?f (CachingSpatialIndex_init ?s 0)
          0 0 ?t
      = (Inl StopIteration,
          \<lparr>spatial_index = ?s, cache = [], cache_size = 0, cache_hits = 0, cache_misses = 1\<rparr>)"
    by (simp only: CachingSpatialIndex_init_def) simp
  from second have second': "caching_find_restaurants_in_radius ?f
          \<lparr>spatial_index = ?s, cache = [], cache_size = 0, cache_hits = 0, cache_misses = 1\<rparr>
          0 0 ?t
      = (Inl StopIteration,
          \<lparr>spatial_index = ?s, cache = [], cache_size = 0, cache_hits = 0, cache_misses = 2\<rparr>)"
    by simp
  from w first' second' show ?thesis
    by (intro conjI)
qed

end
